theory Spec2Isabelle
  imports Complex_Main "HOL-Library.Sublist"
begin

section \<open>The QueryChatbot handler, in its two variants\<close>

text \<open>
  The repository holds one HTTP handler in two variants: \<^verbatim>\<open>src/functions/QueryChatbot.js\<close>
  calls the knowledge base with axios, the second file with node-fetch. Lines 9 to 89 of
  the two files are the same text. The handler is modelled as a function of what its
  surroundings hand to it (the invocation context, the parsed request body, the process
  environment, the token promise of the credential, the settled promise of the HTTP
  client). It gives the way the handler's promise settles (a response returned, or an
  error thrown out of the handler) together with the list of outward calls it made, in
  order.

  Every awaited promise of the surroundings is taken to settle, except the token
  promise, which the source races against a timer.
\<close>

subsection \<open>JavaScript values\<close>

text \<open>
  The values \<^verbatim>\<open>JSON.parse\<close> can produce. A number is an IEEE double; the handler only
  tests numbers for truthiness, copies them and serialises them, so a finite number is
  kept as a rational, with the negative zero and the two infinities beside it
  (\<^verbatim>\<open>JSON.parse\<close> yields no NaN; \<^verbatim>\<open>1e999\<close> parses to the positive infinity and
  \<^verbatim>\<open>-0\<close> to the negative zero). An object is the list of its properties, whose keys are
  distinct after parsing.
\<close>

datatype jsnum = Finite rat | NegZero | PosInfinity | NegInfinity

datatype json =
    JNull
  | JBool bool
  | JNum jsnum
  | JStr string
  | JArr "json list"
  | JObj "(string \<times> json) list"

text \<open>
  A JSON text is kept as the value \<^verbatim>\<open>JSON.parse\<close> reads from it. \<^verbatim>\<open>JSON.stringify\<close>
  does not always write a text that reads back as the value it was given: an infinite
  number is written \<^verbatim>\<open>null\<close> and the negative zero is written \<^verbatim>\<open>0\<close>, at every depth.
  No parsed value has a method, so \<^verbatim>\<open>toJSON\<close> plays no part, and no property is dropped.
\<close>

datatype json_text = Text json

fun stringified :: "json \<Rightarrow> json" where
  "stringified (JNum n) =
     (case n of
        Finite r \<Rightarrow> JNum (Finite r)
      | NegZero \<Rightarrow> JNum (Finite 0)
      | PosInfinity \<Rightarrow> JNull
      | NegInfinity \<Rightarrow> JNull)"
| "stringified (JArr xs) = JArr (map stringified xs)"
| "stringified (JObj kvs) = JObj (map (\<lambda>(k, v). (k, stringified v)) kvs)"
| "stringified v = v"

definition JSON_stringify :: "json \<Rightarrow> json_text" where
  "JSON_stringify v = Text (stringified v)"

text \<open>The values \<^verbatim>\<open>JSON.stringify\<close> writes back as they are: every number in them is finite
  and not the negative zero.\<close>

fun plain :: "json \<Rightarrow> bool" where
  "plain (JNum n) = (case n of Finite r \<Rightarrow> True | NegZero \<Rightarrow> False
                     | PosInfinity \<Rightarrow> False | NegInfinity \<Rightarrow> False)"
| "plain (JArr xs) = (\<forall>x \<in> set xs. plain x)"
| "plain (JObj kvs) = (\<forall>(k, v) \<in> set kvs. plain v)"
| "plain v = True"

text \<open>ToBoolean, as \<^verbatim>\<open>||\<close> and \<^verbatim>\<open>!\<close> apply it.\<close>

fun truthy :: "json \<Rightarrow> bool" where
  "truthy JNull = False"
| "truthy (JBool b) = b"
| "truthy (JNum n) = (n \<noteq> Finite 0 \<and> n \<noteq> NegZero)"
| "truthy (JStr s) = (s \<noteq> [])"
| "truthy (JArr xs) = True"
| "truthy (JObj kvs) = True"

text \<open>
  Reading the property \<^verbatim>\<open>question\<close> of a value: a TypeError on \<^verbatim>\<open>null\<close>, the property's
  value on an object that has it, \<^verbatim>\<open>undefined\<close> on every other value (no prototype of a
  parsed value has a property of that name).
\<close>

datatype lookup = Throws_TypeError | Undefined | Found json

fun get_question :: "json \<Rightarrow> lookup" where
  "get_question JNull = Throws_TypeError"
| "get_question (JObj kvs) =
     (case map_of kvs ''question'' of None \<Rightarrow> Undefined | Some v \<Rightarrow> Found v)"
| "get_question v = Undefined"

text \<open>\<^verbatim>\<open>a || b\<close> where \<^verbatim>\<open>a\<close> was read from a property.\<close>

fun js_or :: "lookup \<Rightarrow> json \<Rightarrow> json" where
  "js_or (Found v) d = (if truthy v then v else d)"
| "js_or l d = d"

text \<open>
  Whether ToString of a value throws, as a template literal applies it. An object is
  converted by its \<^verbatim>\<open>toString\<close> and \<^verbatim>\<open>valueOf\<close> methods: a parsed object inherits
  \<^verbatim>\<open>Object.prototype.toString\<close> unless it has an own property \<^verbatim>\<open>toString\<close>, which is
  never callable, and then \<^verbatim>\<open>valueOf\<close> yields no primitive either: a TypeError. An array is
  joined, converting each element that is not \<^verbatim>\<open>null\<close>.
\<close>

fun ToString_throws :: "json \<Rightarrow> bool" where
  "ToString_throws (JObj kvs) = (map_of kvs ''toString'' \<noteq> None)"
| "ToString_throws (JArr xs) = (\<exists>x \<in> set xs. ToString_throws x)"
| "ToString_throws v = False"

text \<open>The decimal digits of a number, as a template literal prints a status code.\<close>

fun show_nat :: "nat \<Rightarrow> string" where
  "show_nat n =
     (if n < 10 then [''0123456789'' ! n]
      else show_nat (n div 10) @ [''0123456789'' ! (n mod 10)])"

declare show_nat.simps [simp del]

text \<open>The number a string of decimal digits denotes, to read \<open>show_nat\<close> back.\<close>

fun digit_value :: "char \<Rightarrow> nat" where
  "digit_value c = of_char c - 48"

fun read_nat :: "string \<Rightarrow> nat" where
  "read_nat s = foldl (\<lambda>a c. 10 * a + digit_value c) 0 s"

subsection \<open>The surroundings of one invocation\<close>

text \<open>
  The context handed to the handler. Both files log with \<^verbatim>\<open>context.log(...)\<close> and, before
  every error return, with \<^verbatim>\<open>context.log.error(...)\<close>. Both are written against the v4
  programming model (\<^verbatim>\<open>import { app } from "@azure/functions"\<close>, \<^verbatim>\<open>app.http\<close>,
  \<^verbatim>\<open>request.json()\<close>), whose InvocationContext has \<^verbatim>\<open>log\<close> as a plain method: there
  \<^verbatim>\<open>context.log.error\<close> is \<^verbatim>\<open>undefined\<close> and calling it throws a TypeError, after the
  arguments were evaluated. A context whose \<^verbatim>\<open>log\<close> carries an \<^verbatim>\<open>error\<close> method runs it
  and goes on. \<^verbatim>\<open>context.log\<close> itself is callable on both.
\<close>

record invocation_context =
  log_has_error :: bool

definition v4_context :: invocation_context where
  "v4_context = \<lparr>log_has_error = False\<rparr>"

text \<open>The message of the TypeError that \<^verbatim>\<open>context.log.error(...)\<close> throws on Node.\<close>

definition not_a_function :: string where
  "not_a_function = ''context.log.error is not a function''"

text \<open>
  A promise of the credential settles some milliseconds after it was created, fulfilled
  with a token (\<^verbatim>\<open>tokenResponse.token\<close>) or rejected with an error of some message, or it
  never settles. A failure of the credential's constructor is a rejection at time 0.
\<close>

datatype settled = Fulfilled string | Rejected string

datatype promise = SettlesAt nat settled | NeverSettles

text \<open>
  \<^verbatim>\<open>Promise.race([p, timer])\<close> with a timer that rejects after \<open>ms\<close> milliseconds with an
  error of message \<open>msg\<close>. The token promise is created first and stands first in the
  race, so it wins when it has settled by the time the timer fires.
\<close>

fun race_timer :: "promise \<Rightarrow> nat \<Rightarrow> string \<Rightarrow> settled" where
  "race_timer (SettlesAt t s) ms msg = (if t \<le> ms then s else Rejected msg)"
| "race_timer NeverSettles ms msg = Rejected msg"

text \<open>
  \<open>request_json\<close> is what \<^verbatim>\<open>await request.json()\<close> gives: the parsed body, or \<open>None\<close>
  when it throws. \<open>env\<close> is \<^verbatim>\<open>process.env\<close>. \<open>getToken cid scope\<close> is the promise of
  \<^verbatim>\<open>new DefaultAzureCredential({managedIdentityClientId: cid}).getToken(scope)\<close>.
\<close>

record world =
  request_json :: "json option"
  env :: "string \<Rightarrow> string option"
  getToken :: "string option \<Rightarrow> string \<Rightarrow> promise"

text \<open>\<^verbatim>\<open>!process.env.NAME\<close>: the variable is unset or empty.\<close>

fun unset :: "string option \<Rightarrow> bool" where
  "unset None = True"
| "unset (Some s) = (s = [])"

subsection \<open>The HTTP clients\<close>

record axios_config =
  ax_method :: string
  ax_url :: string
  ax_data :: json
  ax_headers :: "(string \<times> string) list"
  ax_timeout :: nat
  ax_maxRetries :: nat
  ax_retryDelay :: nat

record axios_response =
  ar_status :: nat
  ar_data :: json

record axios_error =
  ae_code :: "string option"
  ae_response :: "axios_response option"
  ae_message :: string

datatype axios_result = AxiosResolves axios_response | AxiosRejects axios_error

record fetch_init =
  fi_method :: string
  fi_body :: json_text
  fi_headers :: "(string \<times> string) list"

text \<open>
  A response of node-fetch: \<open>fr_text\<close> and \<open>fr_json\<close> are what \<^verbatim>\<open>await response.text()\<close>
  and \<^verbatim>\<open>await response.json()\<close> give, \<open>Inl\<close> the message of the error they throw.
\<close>

record fetch_response =
  fr_ok :: bool
  fr_status :: nat
  fr_text :: "string + string"
  fr_json :: "string + json"

datatype fetch_result = FetchResolves fetch_response | FetchRejects string

subsection \<open>Responses and traces\<close>

record http_response =
  status :: nat
  headers :: "(string \<times> string) list"
  body :: json_text

text \<open>
  How the handler's promise settles: it returns a response, or it rejects with an error
  of some message, thrown out of the outer \<^verbatim>\<open>catch\<close>.
\<close>

datatype result = Returns http_response | Rejects string

datatype event =
    GetToken "string option" string
  | AxiosCall axios_config
  | FetchCall string fetch_init

record outcome =
  result :: result
  events :: "event list"

text \<open>Line 20: the response to a body that could not be read.\<close>

definition bad_request :: http_response where
  "bad_request =
     \<lparr>status = 400, headers = [],
      body = JSON_stringify (JObj [(''error'', JStr ''Invalid request format'')])\<rparr>"

text \<open>Lines 148 to 154: the response to an error of message \<open>msg\<close>.\<close>

definition internal_error :: "string \<Rightarrow> http_response" where
  "internal_error msg =
     \<lparr>status = 500, headers = [],
      body = JSON_stringify (JObj
        [(''error'', JStr ''An error occurred processing your request''),
         (''details'', JStr msg)])\<rparr>"

text \<open>The response to a successful call, with the payload \<open>v\<close>.\<close>

definition success :: "json \<Rightarrow> http_response" where
  "success v =
     \<lparr>status = 200, headers = [(''Content-Type'', ''application/json'')],
      body = JSON_stringify v\<rparr>"

text \<open>
  The outer \<^verbatim>\<open>catch\<close> (lines 144 to 155; 118 to 129 in the node-fetch file), entered with an
  error of message \<open>msg\<close>: its first statement is \<^verbatim>\<open>context.log.error(...)\<close>, and what it
  throws leaves the handler.
\<close>

definition outer_catch :: "invocation_context \<Rightarrow> string \<Rightarrow> result" where
  "outer_catch ctx msg =
     (if log_has_error ctx then Returns (internal_error msg) else Rejects not_a_function)"

subsection \<open>Lines 13 to 89, common to the two variants\<close>

definition default_question :: string where
  "default_question = ''Tell me about your portfolio''"

text \<open>
  Lines 14 to 17: the question, or \<open>None\<close> when the inner \<^verbatim>\<open>catch\<close> is entered. The
  \<^verbatim>\<open>try\<close> block holds the read of the body, the read of its property and the template
  literal of the log line, which converts the question to a string.
\<close>

definition parse_request :: "world \<Rightarrow> json option" where
  "parse_request w =
     (case request_json w of
        None \<Rightarrow> None
      | Some requestData \<Rightarrow>
          (case get_question requestData of
             Throws_TypeError \<Rightarrow> None
           | l \<Rightarrow>
               (let questionText = js_or l (JStr default_question)
                in if ToString_throws questionText then None else Some questionText)))"

text \<open>
  Lines 18 to 21, the inner \<^verbatim>\<open>catch\<close>: \<^verbatim>\<open>context.log.error(...)\<close>, then the return of the
  400. What the logging call throws is caught by the outer \<^verbatim>\<open>catch\<close>.
\<close>

definition parse_failure :: "invocation_context \<Rightarrow> result" where
  "parse_failure ctx =
     (if log_has_error ctx then Returns bad_request else outer_catch ctx not_a_function)"

definition isLocalDevelopment :: "world \<Rightarrow> bool" where
  "isLocalDevelopment w = unset (env w ''WEBSITE_INSTANCE_ID'')"

text \<open>
  Lines 30 to 59: the access token, or \<open>Inl\<close> the message of the error thrown, with the
  token requests made. In the \<^verbatim>\<open>catch\<close> of lines 55 to 58 the logging call of line 56
  comes before the wrapped error of line 57.
\<close>

definition authenticate :: "invocation_context \<Rightarrow> world \<Rightarrow> (string + string) \<times> event list" where
  "authenticate ctx w =
     (if isLocalDevelopment w then
        (case env w ''LANGUAGE_SERVICE_KEY'' of
           None \<Rightarrow>
             (Inl ''LANGUAGE_SERVICE_KEY environment variable is required for local development'', [])
         | Some accessToken \<Rightarrow>
             (if accessToken = [] then
                Inl ''LANGUAGE_SERVICE_KEY environment variable is required for local development''
              else Inr accessToken, []))
      else
        (let cid = env w ''MANAGED_IDENTITY_CLIENT_ID'';
             scope = ''https://cognitiveservices.azure.com/.default''
         in (case race_timer (getToken w cid scope) 10000 ''Token acquisition timed out'' of
               Fulfilled token \<Rightarrow> Inr token
             | Rejected msg \<Rightarrow>
                 if log_has_error ctx then Inl (''Failed to authenticate: '' @ msg)
                 else Inl not_a_function,
             [GetToken cid scope])))"

text \<open>Lines 62 to 89: the URL and the headers of the call, or the error thrown.\<close>

definition build_request ::
  "world \<Rightarrow> string \<Rightarrow> string + (string \<times> (string \<times> string) list)" where
  "build_request w accessToken =
     (case env w ''LANGUAGE_SERVICE_ENDPOINT'' of
        None \<Rightarrow> Inl ''LANGUAGE_SERVICE_ENDPOINT environment variable is not defined''
      | Some endpoint \<Rightarrow>
          if endpoint = [] then
            Inl ''LANGUAGE_SERVICE_ENDPOINT environment variable is not defined''
          else
            (case env w ''QA_KNOWLEDGE_BASE_ID'' of
               None \<Rightarrow> Inl ''QA_KNOWLEDGE_BASE_ID environment variable is not defined''
             | Some projectName \<Rightarrow>
                 if projectName = [] then
                   Inl ''QA_KNOWLEDGE_BASE_ID environment variable is not defined''
                 else
                   Inr (endpoint @ ''/language/:query-knowledgebases?projectName=''
                          @ projectName @ ''&deploymentName=production&api-version=2023-04-01'',
                        [(''Content-Type'', ''application/json''),
                         (if isLocalDevelopment w
                          then (''Ocp-Apim-Subscription-Key'', accessToken)
                          else (''Authorization'', ''Bearer '' @ accessToken))])))"

text \<open>Lines 73 to 76.\<close>

definition qnaQuery :: "json \<Rightarrow> json" where
  "qnaQuery questionText = JObj [(''question'', questionText), (''top'', JNum (Finite 1))]"

text \<open>
  Lines 23 to 89 in one: authentication, then the request; \<open>Inl\<close> is the message of the
  error that reaches the outer \<^verbatim>\<open>catch\<close>.
\<close>

definition prepare ::
  "invocation_context \<Rightarrow> world \<Rightarrow>
   (string + (string \<times> (string \<times> string) list)) \<times> event list" where
  "prepare ctx w =
     (case authenticate ctx w of
        (Inl msg, evs) \<Rightarrow> (Inl msg, evs)
      | (Inr accessToken, evs) \<Rightarrow> (build_request w accessToken, evs))"

subsection \<open>The axios variant, lines 91 to 143\<close>

definition axios_request :: "string \<Rightarrow> (string \<times> string) list \<Rightarrow> json \<Rightarrow> axios_config" where
  "axios_request qnaUrl hdrs questionText =
     \<lparr>ax_method = ''post'', ax_url = qnaUrl, ax_data = qnaQuery questionText,
      ax_headers = hdrs, ax_timeout = 15000, ax_maxRetries = 3, ax_retryDelay = 1000\<rparr>"

text \<open>
  Lines 114 to 143, the \<^verbatim>\<open>catch\<close> of the call: the logging call of line 119 comes
  before the three returns; \<open>Inl\<close> is the message of the error it throws.
\<close>

definition axios_failure :: "invocation_context \<Rightarrow> axios_error \<Rightarrow> string + http_response" where
  "axios_failure ctx axiosError =
     (let st = (case ae_response axiosError of
                  None \<Rightarrow> 500
                | Some r \<Rightarrow> if ar_status r = 0 then 500 else ar_status r);
          errorMessage = (case ae_response axiosError of
                  None \<Rightarrow> JStr (ae_message axiosError)
                | Some r \<Rightarrow> if truthy (ar_data r) then ar_data r
                            else JStr (ae_message axiosError))
      in if \<not> log_has_error ctx then Inl not_a_function
         else if ae_code axiosError = Some ''ECONNABORTED'' then
           Inr \<lparr>status = 504, headers = [],
                body = JSON_stringify
                  (JObj [(''error'', JStr ''Request to Language service timed out'')])\<rparr>
         else if ae_response axiosError \<noteq> None then
           Inr \<lparr>status = st, headers = [],
                body = JSON_stringify
                  (JObj [(''error'', JStr (''Language service error: '' @ show_nat st)),
                         (''details'', errorMessage)])\<rparr>
         else
           Inr \<lparr>status = 500, headers = [],
                body = JSON_stringify
                  (JObj [(''error'', JStr ''Failed to connect to Language service'')])\<rparr>)"

definition handler_axios ::
  "invocation_context \<Rightarrow> world \<Rightarrow> (axios_config \<Rightarrow> axios_result) \<Rightarrow> outcome" where
  "handler_axios ctx w axios =
     (case parse_request w of
        None \<Rightarrow> \<lparr>result = parse_failure ctx, events = []\<rparr>
      | Some questionText \<Rightarrow>
          (case prepare ctx w of
             (Inl msg, evs) \<Rightarrow> \<lparr>result = outer_catch ctx msg, events = evs\<rparr>
           | (Inr (qnaUrl, hdrs), evs) \<Rightarrow>
               (let config = axios_request qnaUrl hdrs questionText
                in \<lparr>result =
                      (case axios config of
                         AxiosResolves r \<Rightarrow> Returns (success (ar_data r))
                       | AxiosRejects axiosError \<Rightarrow>
                           (case axios_failure ctx axiosError of
                              Inl msg \<Rightarrow> outer_catch ctx msg
                            | Inr resp \<Rightarrow> Returns resp)),
                    events = evs @ [AxiosCall config]\<rparr>)))"

subsection \<open>The node-fetch variant, lines 91 to 117\<close>

definition fetch_request :: "(string \<times> string) list \<Rightarrow> json \<Rightarrow> fetch_init" where
  "fetch_request hdrs questionText =
     \<lparr>fi_method = ''POST'', fi_body = JSON_stringify (qnaQuery questionText),
      fi_headers = hdrs\<rparr>"

text \<open>
  Lines 97 to 117: the response, or \<open>Inl\<close> the message of the error thrown. The logging
  call of line 100 comes before the return of the relayed status.
\<close>

definition fetch_settled :: "invocation_context \<Rightarrow> fetch_result \<Rightarrow> string + http_response" where
  "fetch_settled ctx res =
     (case res of
        FetchRejects msg \<Rightarrow> Inl msg
      | FetchResolves r \<Rightarrow>
          if \<not> fr_ok r then
            (case fr_text r of
               Inl msg \<Rightarrow> Inl msg
             | Inr errorText \<Rightarrow>
                 if \<not> log_has_error ctx then Inl not_a_function
                 else
                   Inr \<lparr>status = fr_status r, headers = [],
                        body = JSON_stringify
                          (JObj [(''error'',
                                  JStr (''Language service error: '' @ show_nat (fr_status r)))])\<rparr>)
          else
            (case fr_json r of
               Inl msg \<Rightarrow> Inl msg
             | Inr v \<Rightarrow> Inr (success v)))"

definition handler_fetch ::
  "invocation_context \<Rightarrow> world \<Rightarrow> (string \<Rightarrow> fetch_init \<Rightarrow> fetch_result) \<Rightarrow> outcome" where
  "handler_fetch ctx w fetch =
     (case parse_request w of
        None \<Rightarrow> \<lparr>result = parse_failure ctx, events = []\<rparr>
      | Some questionText \<Rightarrow>
          (case prepare ctx w of
             (Inl msg, evs) \<Rightarrow> \<lparr>result = outer_catch ctx msg, events = evs\<rparr>
           | (Inr (qnaUrl, hdrs), evs) \<Rightarrow>
               (let init = fetch_request hdrs questionText
                in \<lparr>result =
                      (case fetch_settled ctx (fetch qnaUrl init) of
                         Inl msg \<Rightarrow> outer_catch ctx msg
                       | Inr resp \<Rightarrow> Returns resp),
                    events = evs @ [FetchCall qnaUrl init]\<rparr>)))"

subsection \<open>Reading a trace\<close>

text \<open>
  The knowledge-base queries a trace sends out: the object handed to axios, and the
  value that the body handed to fetch reads as.
\<close>

fun outbound_query :: "event \<Rightarrow> json list" where
  "outbound_query (AxiosCall c) = [ax_data c]"
| "outbound_query (FetchCall u i) = (case fi_body i of Text v \<Rightarrow> [v])"
| "outbound_query (GetToken cid scope) = []"

definition outbound_queries :: "outcome \<Rightarrow> json list" where
  "outbound_queries out = concat (map outbound_query (events out))"

text \<open>Authentication and the construction of the request both succeed.\<close>

definition configured :: "invocation_context \<Rightarrow> world \<Rightarrow> bool" where
  "configured ctx w =
     (case prepare ctx w of (Inl msg, evs) \<Rightarrow> False | (Inr req, evs) \<Rightarrow> True)"

text \<open>The promise settles within \<open>ms\<close> milliseconds.\<close>

fun settles_within :: "promise \<Rightarrow> nat \<Rightarrow> bool" where
  "settles_within (SettlesAt t s) ms = (t \<le> ms)"
| "settles_within NeverSettles ms = False"

text \<open>The value has an own property \<^verbatim>\<open>question\<close>.\<close>

fun has_question :: "json \<Rightarrow> bool" where
  "has_question (JObj kvs) = (map_of kvs ''question'' \<noteq> None)"
| "has_question v = False"

subsection \<open>A reply of the knowledge base, as each client presents it\<close>

text \<open>
  The knowledge base answers with a status and a body; \<open>rp_json\<close> is the value the body
  reads as when it is JSON, and otherwise the message of the parser's error.

  axios (with the default \<^verbatim>\<open>validateStatus\<close> and response transform) resolves on a status
  from 200 to 299 and rejects on every other with the response attached; its data is
  the parsed body, or the body as a string when it is not JSON. node-fetch resolves on
  every status, with \<^verbatim>\<open>ok\<close> for 200 to 299.
\<close>

record reply =
  rp_status :: nat
  rp_text :: string
  rp_json :: "string + json"

definition axios_client :: "reply \<Rightarrow> axios_config \<Rightarrow> axios_result" where
  "axios_client rep config =
     (let s = rp_status rep;
          r = \<lparr>ar_status = s,
               ar_data = (case rp_json rep of Inl msg \<Rightarrow> JStr (rp_text rep) | Inr v \<Rightarrow> v)\<rparr>
      in if 200 \<le> s \<and> s < 300 then AxiosResolves r
         else AxiosRejects
           \<lparr>ae_code = (if 400 \<le> s \<and> s < 500 then Some ''ERR_BAD_REQUEST''
                        else if 500 \<le> s \<and> s < 600 then Some ''ERR_BAD_RESPONSE''
                        else None),
            ae_response = Some r,
            ae_message = ''Request failed with status code '' @ show_nat s\<rparr>)"

definition fetch_client :: "reply \<Rightarrow> string \<Rightarrow> fetch_init \<Rightarrow> fetch_result" where
  "fetch_client rep url init =
     FetchResolves
       \<lparr>fr_ok = (200 \<le> rp_status rep \<and> rp_status rep < 300),
        fr_status = rp_status rep,
        fr_text = Inr (rp_text rep),
        fr_json = rp_json rep\<rparr>"

subsection \<open>Example invocations\<close>

definition logging_context :: invocation_context where
  "logging_context = \<lparr>log_has_error = True\<rparr>"

definition local_env :: "string \<Rightarrow> string option" where
  "local_env = map_of
     [(''LANGUAGE_SERVICE_KEY'', ''0123abcd''),
      (''LANGUAGE_SERVICE_ENDPOINT'', ''https://kb.example.net''),
      (''QA_KNOWLEDGE_BASE_ID'', ''portfolio'')]"

definition hosted_env :: "string \<Rightarrow> string option" where
  "hosted_env = map_of
     [(''WEBSITE_INSTANCE_ID'', ''a1b2''),
      (''MANAGED_IDENTITY_CLIENT_ID'', ''c3d4''),
      (''LANGUAGE_SERVICE_ENDPOINT'', ''https://kb.example.net''),
      (''QA_KNOWLEDGE_BASE_ID'', ''portfolio'')]"

definition no_env :: "string \<Rightarrow> string option" where
  "no_env name = None"

definition no_token :: "string option \<Rightarrow> string \<Rightarrow> promise" where
  "no_token cid scope = NeverSettles"

definition ask :: "json \<Rightarrow> json option" where
  "ask q = Some (JObj [(''question'', q)])"

definition local_world :: "json option \<Rightarrow> world" where
  "local_world b = \<lparr>request_json = b, env = local_env, getToken = no_token\<rparr>"

definition hosted_world :: "json option \<Rightarrow> world" where
  "hosted_world b = \<lparr>request_json = b, env = hosted_env, getToken = no_token\<rparr>"

text \<open>A credential whose token arrives at the instant the timer fires.\<close>

definition prompt_token :: "string option \<Rightarrow> string \<Rightarrow> promise" where
  "prompt_token cid scope = SettlesAt 10000 (Fulfilled ''eyJ0eXAi'')"

definition hosted_world_with_token :: "json option \<Rightarrow> world" where
  "hosted_world_with_token b = \<lparr>request_json = b, env = hosted_env, getToken = prompt_token\<rparr>"

definition hosted_headers :: "(string \<times> string) list" where
  "hosted_headers =
     [(''Content-Type'', ''application/json''), (''Authorization'', ''Bearer eyJ0eXAi'')]"

definition bare_world :: "json option \<Rightarrow> world" where
  "bare_world b = \<lparr>request_json = b, env = no_env, getToken = no_token\<rparr>"

definition local_url :: string where
  "local_url = ''https://kb.example.net/language/:query-knowledgebases?projectName=portfolio&deploymentName=production&api-version=2023-04-01''"

definition local_headers :: "(string \<times> string) list" where
  "local_headers =
     [(''Content-Type'', ''application/json''), (''Ocp-Apim-Subscription-Key'', ''0123abcd'')]"

text \<open>A client whose promise settles the same way whatever the request.\<close>

definition axios_gives :: "axios_result \<Rightarrow> axios_config \<Rightarrow> axios_result" where
  "axios_gives r config = r"

definition fetch_gives :: "fetch_result \<Rightarrow> string \<Rightarrow> fetch_init \<Rightarrow> fetch_result" where
  "fetch_gives r url init = r"

text \<open>The error axios rejects with when its timeout of 15000 ms passes.\<close>

definition axios_timeout :: axios_error where
  "axios_timeout =
     \<lparr>ae_code = Some ''ECONNABORTED'', ae_response = None,
      ae_message = ''timeout of 15000ms exceeded''\<rparr>"

text \<open>The message of the error node-fetch rejects with when the connection times out.\<close>

definition connect_timeout :: string where
  "connect_timeout =
     ''request to '' @ local_url @ '' failed, reason: connect ETIMEDOUT 203.0.113.7:443''"

definition answer :: json where
  "answer = JObj [(''answers'', JArr [JObj [(''answer'', JStr ''See the projects page'')]])]"

definition reply_ok :: reply where
  \<open>reply_ok =
     \<lparr>rp_status = 200, rp_text = ''{"answers":[{"answer":"See the projects page"}]}'',
      rp_json = Inr answer\<rparr>\<close>

text \<open>A reply whose payload holds the number \<^verbatim>\<open>1e999\<close>.\<close>

definition overflowing :: json where
  "overflowing = JObj [(''confidenceScore'', JNum PosInfinity)]"

definition reply_overflowing :: reply where
  \<open>reply_overflowing =
     \<lparr>rp_status = 200, rp_text = ''{"confidenceScore":1e999}'', rp_json = Inr overflowing\<rparr>\<close>

text \<open>A reply of status 204, with an empty body.\<close>

definition reply_no_content :: reply where
  "reply_no_content =
     \<lparr>rp_status = 204, rp_text = [], rp_json = Inl ''Unexpected end of JSON input''\<rparr>"

definition reply_not_found :: reply where
  "reply_not_found =
     \<lparr>rp_status = 404, rp_text = ''Resource not found'',
      rp_json = Inl ''Unexpected token R in JSON at position 0''\<rparr>"

section \<open>Facts shared by the claims\<close>

subsection \<open>Serialisation and digits\<close>

lemma plain_stringified: "plain v \<Longrightarrow> stringified v = v"
proof (induction v rule: stringified.induct)
  case (1 n)
  then show ?case by (cases n) simp_all
next
  case (2 xs)
  then show ?case by (simp add: map_idI)
next
  case (3 kvs)
  then show ?case by (auto intro!: map_idI)
qed simp_all

lemma stringified_JStr: "stringified q = JStr s \<longleftrightarrow> q = JStr s"
  by (cases q) (auto split: jsnum.splits)

lemma JStr_stringified: "JStr s = stringified q \<longleftrightarrow> q = JStr s"
  by (cases q) (auto split: jsnum.splits)

lemma JSON_stringify_plain: "plain v \<Longrightarrow> JSON_stringify v = Text v"
  by (simp add: JSON_stringify_def plain_stringified)

lemma digit_value_nth: "d < 10 \<Longrightarrow> digit_value (''0123456789'' ! d) = d"
proof -
  assume "d < 10"
  then have "d \<in> {0, 1, 2, 3, 4, 5, 6, 7, 8, 9}" by auto
  then show ?thesis by auto
qed

lemma read_nat_snoc: "read_nat (s @ [c]) = 10 * read_nat s + digit_value c"
  by simp

text \<open>\<open>show_nat\<close> writes the decimal digits of its argument: reading them gives it back.\<close>

lemma read_show_nat: "read_nat (show_nat n) = n"
proof (induction n rule: show_nat.induct)
  case (1 n)
  show ?case
  proof (cases "n < 10")
    case True
    then show ?thesis
      using digit_value_nth [of n] by (subst show_nat.simps) simp
  next
    case False
    then have "read_nat (show_nat (n div 10)) = n div 10"
      using 1 by simp
    moreover have "digit_value (''0123456789'' ! (n mod 10)) = n mod 10"
      by (rule digit_value_nth) simp
    ultimately show ?thesis
      using False by (subst show_nat.simps) (simp only: if_False read_nat_snoc, simp)
  qed
qed

lemma show_nat_inj: "show_nat m = show_nat n \<Longrightarrow> m = n"
  by (metis read_show_nat)

lemma show_nat_404: "show_nat 404 = ''404''"
  by (simp add: show_nat.simps)

lemma show_nat_503: "show_nat 503 = ''503''"
  by (simp add: show_nat.simps)

lemma mentions_404: "sublist ''404'' (''Language service error: '' @ show_nat 404)"
proof -
  have "sublist ''404'' (''Language service error: '' @ ''404'' @ [])"
    by (rule sublist_appendI)
  then show ?thesis by (simp add: show_nat_404)
qed

subsection \<open>The definitions at concrete inputs\<close>

lemma truthy_examples:
  "\<not> truthy (JNum NegZero)" "\<not> truthy (JNum (Finite 0))" "truthy (JNum PosInfinity)"
  "truthy (JNum NegInfinity)" "truthy (JNum (Finite (-1)))" "\<not> truthy (JStr [])"
  "truthy (JStr ''0'')" "\<not> truthy JNull" "\<not> truthy (JBool False)" "truthy (JBool True)"
  "truthy (JArr [])" "truthy (JObj [])"
  by simp_all

lemma stringified_examples:
  "stringified (JNum NegZero) = JNum (Finite 0)"
  "stringified (JNum PosInfinity) = JNull"
  "stringified (JNum NegInfinity) = JNull"
  "stringified (JArr [JNum NegZero, JStr ''a'']) = JArr [JNum (Finite 0), JStr ''a'']"
  "stringified (JObj [(''a'', JArr [JNum PosInfinity]), (''b'', JBool True)])
     = JObj [(''a'', JArr [JNull]), (''b'', JBool True)]"
  by simp_all

lemma get_question_examples:
  "get_question JNull = Throws_TypeError"
  "get_question (JArr [JStr ''question'']) = Undefined"
  "get_question (JStr ''question'') = Undefined"
  "get_question (JNum (Finite 5)) = Undefined"
  "get_question (JObj [(''Question'', JStr ''x'')]) = Undefined"
  "get_question (JObj [(''top'', JNum (Finite 3)), (''question'', JStr ''x'')]) = Found (JStr ''x'')"
  by simp_all

lemma ToString_throws_examples:
  "ToString_throws (JObj [(''toString'', JNull)])"
  "\<not> ToString_throws (JObj [(''valueOf'', JNull)])"
  "ToString_throws (JArr [JStr ''a'', JObj [(''toString'', JNum (Finite 1))]])"
  "\<not> ToString_throws (JArr [JNull, JObj []])"
  by simp_all

lemma race_timer_examples:
  "t \<le> ms \<Longrightarrow> race_timer (SettlesAt t s) ms msg = s"
  "ms < t \<Longrightarrow> race_timer (SettlesAt t s) ms msg = Rejected msg"
  "race_timer NeverSettles ms msg = Rejected msg"
  by simp_all

lemma request_shapes:
  "axios_request u h q =
     \<lparr>ax_method = ''post'', ax_url = u,
      ax_data = JObj [(''question'', q), (''top'', JNum (Finite 1))],
      ax_headers = h, ax_timeout = 15000, ax_maxRetries = 3, ax_retryDelay = 1000\<rparr>"
  "fetch_request h q =
     \<lparr>fi_method = ''POST'',
      fi_body = Text (JObj [(''question'', stringified q), (''top'', JNum (Finite 1))]),
      fi_headers = h\<rparr>"
  by (simp_all add: axios_request_def fetch_request_def qnaQuery_def JSON_stringify_def)

lemma axios_failure_no_response:
  assumes "log_has_error ctx" and "ae_response e = None" and "ae_code e \<noteq> Some ''ECONNABORTED''"
  shows "axios_failure ctx e =
     Inr \<lparr>status = 500, headers = [],
          body = Text (JObj [(''error'', JStr ''Failed to connect to Language service'')])\<rparr>"
  using assms by (simp add: axios_failure_def JSON_stringify_def)

lemma axios_failure_status_zero:
  assumes "log_has_error ctx" and "ae_response e = Some \<lparr>ar_status = 0, ar_data = JStr []\<rparr>"
      and "ae_code e = None"
  shows "axios_failure ctx e =
     Inr \<lparr>status = 500, headers = [],
          body = Text (JObj [(''error'', JStr (''Language service error: '' @ show_nat 500)),
                             (''details'', JStr (ae_message e))])\<rparr>"
  using assms by (simp add: axios_failure_def JSON_stringify_def)

lemma fetch_settled_text_fails:
  assumes "\<not> fr_ok r" and "fr_text r = Inl msg"
  shows "fetch_settled ctx (FetchResolves r) = Inl msg"
  using assms by (simp add: fetch_settled_def)

subsection \<open>The example invocations\<close>

lemma context_facts:
  "\<not> log_has_error v4_context" "log_has_error logging_context"
  by (simp_all add: v4_context_def logging_context_def)

lemma request_json_local_world: "request_json (local_world b) = b"
  by (simp add: local_world_def)

lemma prepare_local_world:
  "prepare ctx (local_world b) = (Inr (local_url, local_headers), [])"
  by (simp add: prepare_def authenticate_def build_request_def isLocalDevelopment_def
      local_world_def local_env_def local_url_def local_headers_def)

lemma configured_local_world: "configured ctx (local_world b)"
  by (simp add: configured_def prepare_local_world)

lemma parse_request_Hi: "parse_request (local_world (ask (JStr ''Hi''))) = Some (JStr ''Hi'')"
  by (simp add: parse_request_def local_world_def ask_def)

lemma hosted_world_facts:
  "\<not> isLocalDevelopment (hosted_world b)"
  "env (hosted_world b) ''MANAGED_IDENTITY_CLIENT_ID'' = Some ''c3d4''"
  "getToken (hosted_world b) cid scope = NeverSettles"
  by (simp_all add: hosted_world_def hosted_env_def isLocalDevelopment_def no_token_def)

text \<open>In hosted mode a token that arrives in time becomes a bearer header.\<close>

lemma prepare_hosted_world_with_token:
  "prepare ctx (hosted_world_with_token b) =
     (Inr (local_url, hosted_headers),
      [GetToken (Some ''c3d4'') ''https://cognitiveservices.azure.com/.default''])"
  by (simp add: prepare_def authenticate_def build_request_def isLocalDevelopment_def
      hosted_world_with_token_def hosted_env_def prompt_token_def local_url_def
      hosted_headers_def)

text \<open>In hosted mode a credential that fails in time enters the \<^verbatim>\<open>catch\<close> of line 55.\<close>

lemma token_rejected:
  assumes "\<not> isLocalDevelopment w"
      and "getToken w (env w ''MANAGED_IDENTITY_CLIENT_ID'')
             ''https://cognitiveservices.azure.com/.default'' = SettlesAt t (Rejected msg)"
      and "t \<le> 10000"
  shows "authenticate ctx w =
     (Inl (if log_has_error ctx then ''Failed to authenticate: '' @ msg else not_a_function),
      [GetToken (env w ''MANAGED_IDENTITY_CLIENT_ID'')
         ''https://cognitiveservices.azure.com/.default''])"
  using assms by (simp add: authenticate_def Let_def)

lemma bare_world_facts:
  "isLocalDevelopment (bare_world b)"
  "unset (env (bare_world b) name)"
  "request_json (bare_world b) = b"
  by (simp_all add: bare_world_def no_env_def isLocalDevelopment_def)

subsection \<open>The two catch blocks\<close>

lemma outer_catch_cases:
  "outer_catch ctx msg =
     (if log_has_error ctx then Returns (internal_error msg) else Rejects not_a_function)"
  by (simp add: outer_catch_def)

lemma parse_failure_cases:
  "parse_failure ctx =
     (if log_has_error ctx then Returns bad_request else Rejects not_a_function)"
  by (simp add: parse_failure_def outer_catch_def)

subsection \<open>The question read from the body\<close>

lemma parse_request_question:
  assumes "request_json w = Some (JObj kvs)" and "map_of kvs ''question'' = Some v"
  shows "parse_request w =
     (if truthy v then (if ToString_throws v then None else Some v)
      else Some (JStr default_question))"
  using assms by (simp add: parse_request_def default_question_def)

lemma parse_request_no_question:
  assumes "request_json w = Some v" and "v \<noteq> JNull" and "\<not> has_question v"
  shows "parse_request w = Some (JStr default_question)"
  using assms by (cases v) (simp_all add: parse_request_def default_question_def)

lemma parse_request_nonempty: "parse_request w = Some q \<Longrightarrow> q \<noteq> JStr []"
  unfolding parse_request_def default_question_def
  by (cases "request_json w"; cases "get_question (the (request_json w))")
     (auto simp: Let_def split: if_splits)

subsection \<open>Authentication and the request do not read the body\<close>

lemma isLocalDevelopment_request_json [simp]:
  "isLocalDevelopment (w\<lparr>request_json := b\<rparr>) = isLocalDevelopment w"
  by (simp add: isLocalDevelopment_def)

lemma authenticate_request_json [simp]:
  "authenticate ctx (w\<lparr>request_json := b\<rparr>) = authenticate ctx w"
  by (simp add: authenticate_def)

lemma build_request_request_json [simp]:
  "build_request (w\<lparr>request_json := b\<rparr>) t = build_request w t"
  by (simp add: build_request_def cong: option.case_cong if_cong)

lemma prepare_request_json [simp]: "prepare ctx (w\<lparr>request_json := b\<rparr>) = prepare ctx w"
  by (simp add: prepare_def cong: prod.case_cong sum.case_cong)

text \<open>Both handlers depend on the body only through the question read from it.\<close>

lemma handler_axios_cong:
  "parse_request w = parse_request w' \<Longrightarrow> prepare ctx w = prepare ctx w' \<Longrightarrow>
   handler_axios ctx w axios = handler_axios ctx w' axios"
  by (simp add: handler_axios_def split: option.splits)

lemma handler_fetch_cong:
  "parse_request w = parse_request w' \<Longrightarrow> prepare ctx w = prepare ctx w' \<Longrightarrow>
   handler_fetch ctx w fetch = handler_fetch ctx w' fetch"
  by (simp add: handler_fetch_def split: option.splits)

subsection \<open>Missing configuration\<close>

lemma unset_authenticate:
  "isLocalDevelopment w \<Longrightarrow> unset (env w ''LANGUAGE_SERVICE_KEY'') \<Longrightarrow>
   \<exists>msg evs. authenticate ctx w = (Inl msg, evs)"
  by (cases "env w ''LANGUAGE_SERVICE_KEY''") (simp_all add: authenticate_def)

lemma unset_build_request:
  "unset (env w ''LANGUAGE_SERVICE_ENDPOINT'') \<or> unset (env w ''QA_KNOWLEDGE_BASE_ID'') \<Longrightarrow>
   \<exists>msg. build_request w t = Inl msg"
  by (cases "env w ''LANGUAGE_SERVICE_ENDPOINT''"; cases "env w ''QA_KNOWLEDGE_BASE_ID''")
     (auto simp: build_request_def)

lemma unset_prepare:
  assumes "(isLocalDevelopment w \<and> unset (env w ''LANGUAGE_SERVICE_KEY''))
         \<or> unset (env w ''LANGUAGE_SERVICE_ENDPOINT'')
         \<or> unset (env w ''QA_KNOWLEDGE_BASE_ID'')"
  shows "\<exists>msg evs. prepare ctx w = (Inl msg, evs)"
proof (cases "authenticate ctx w")
  case (Pair r evs)
  show ?thesis
  proof (cases r)
    case (Inl msg)
    then show ?thesis using Pair by (simp add: prepare_def)
  next
    case (Inr t)
    then have "\<not> (isLocalDevelopment w \<and> unset (env w ''LANGUAGE_SERVICE_KEY''))"
      using Pair unset_authenticate [of w ctx] by auto
    then obtain msg where "build_request w t = Inl msg"
      using assms unset_build_request [of w t] by auto
    then show ?thesis using Pair Inr by (simp add: prepare_def)
  qed
qed


subsection \<open>The queries sent\<close>

text \<open>The events of authentication are token requests: they send no query.\<close>

lemma prepare_events:
  "prepare ctx w = (r, evs) \<Longrightarrow> concat (map outbound_query evs) = []"
  by (auto simp: prepare_def authenticate_def Let_def
      split: if_splits option.splits settled.splits sum.splits)

text \<open>Each variant sends one query when it reaches the call, and none otherwise.\<close>

lemma outbound_queries_axios:
  "outbound_queries (handler_axios ctx w axios) =
     (case parse_request w of
        None \<Rightarrow> []
      | Some q \<Rightarrow> if configured ctx w then [qnaQuery q] else [])"
  by (auto simp: handler_axios_def outbound_queries_def configured_def axios_request_def Let_def
      dest: prepare_events split: option.splits prod.splits sum.splits)

lemma outbound_queries_fetch:
  "outbound_queries (handler_fetch ctx w fetch) =
     (case parse_request w of
        None \<Rightarrow> []
      | Some q \<Rightarrow> if configured ctx w then [stringified (qnaQuery q)] else [])"
  by (auto simp: handler_fetch_def outbound_queries_def configured_def fetch_request_def Let_def
      JSON_stringify_def dest: prepare_events split: option.splits prod.splits sum.splits)

text \<open>
  With a required value missing the outer \<^verbatim>\<open>catch\<close> is entered, and no query is sent:
  a context with \<^verbatim>\<open>log.error\<close> gets the 500, the v4 context gets a rejection.
\<close>

lemma missing_configuration:
  assumes "parse_request w \<noteq> None"
      and "(isLocalDevelopment w \<and> unset (env w ''LANGUAGE_SERVICE_KEY''))
         \<or> unset (env w ''LANGUAGE_SERVICE_ENDPOINT'')
         \<or> unset (env w ''QA_KNOWLEDGE_BASE_ID'')"
  shows "\<exists>msg evs.
           handler_axios ctx w axios = \<lparr>result = outer_catch ctx msg, events = evs\<rparr>
         \<and> handler_fetch ctx w fetch = \<lparr>result = outer_catch ctx msg, events = evs\<rparr>
         \<and> concat (map outbound_query evs) = []"
proof -
  obtain q where q: "parse_request w = Some q"
    using assms(1) by auto
  obtain msg evs where p: "prepare ctx w = (Inl msg, evs)"
    using unset_prepare [OF assms(2)] by blast
  have e: "concat (map outbound_query evs) = []"
    using p by (rule prepare_events)
  have "handler_axios ctx w axios = \<lparr>result = outer_catch ctx msg, events = evs\<rparr>
      \<and> handler_fetch ctx w fetch = \<lparr>result = outer_catch ctx msg, events = evs\<rparr>
      \<and> concat (map outbound_query evs) = []"
    by (simp add: handler_axios_def handler_fetch_def q p e)
  then show ?thesis by blast
qed

lemma stringified_qnaQuery:
  "stringified (qnaQuery q) = JObj [(''question'', stringified q), (''top'', JNum (Finite 1))]"
  by (simp add: qnaQuery_def)


subsection \<open>A body that cannot be read\<close>

lemma unparsable_body:
  assumes "request_json w = None"
  shows "handler_axios ctx w axios = \<lparr>result = parse_failure ctx, events = []\<rparr>"
    and "handler_fetch ctx w fetch = \<lparr>result = parse_failure ctx, events = []\<rparr>"
  using assms by (simp_all add: handler_axios_def handler_fetch_def parse_request_def)

subsection \<open>The responses to a reply\<close>

lemma reply_success_axios:
  assumes "parse_request w \<noteq> None" and "configured ctx w"
      and "200 \<le> rp_status rep" and "rp_status rep < 300" and "rp_json rep = Inr v"
  shows "result (handler_axios ctx w (axios_client rep)) = Returns (success v)"
  using assms
  by (auto simp: handler_axios_def configured_def axios_client_def Let_def
      split: prod.splits sum.splits)

lemma reply_success_fetch:
  assumes "parse_request w \<noteq> None" and "configured ctx w"
      and "200 \<le> rp_status rep" and "rp_status rep < 300" and "rp_json rep = Inr v"
  shows "result (handler_fetch ctx w (fetch_client rep)) = Returns (success v)"
  using assms
  by (auto simp: handler_fetch_def configured_def fetch_client_def fetch_settled_def Let_def
      split: prod.splits sum.splits)

text \<open>
  A reply of another status: a context with \<^verbatim>\<open>log.error\<close> gets the status relayed, the
  v4 context gets a rejection.
\<close>

lemma reply_failure_axios:
  assumes "parse_request w \<noteq> None" and "configured ctx w"
      and "rp_status rep < 200 \<or> 300 \<le> rp_status rep" and "0 < rp_status rep"
  shows "result (handler_axios ctx w (axios_client rep))
           = (if log_has_error ctx then
                Returns \<lparr>status = rp_status rep, headers = [],
                  body = JSON_stringify (JObj
                    [(''error'', JStr (''Language service error: '' @ show_nat (rp_status rep))),
                     (''details'',
                        (case rp_json rep of
                           Inr v \<Rightarrow>
                             if truthy v then v
                             else JStr (''Request failed with status code '' @ show_nat (rp_status rep))
                         | Inl msg \<Rightarrow>
                             if rp_text rep \<noteq> [] then JStr (rp_text rep)
                             else JStr (''Request failed with status code '' @ show_nat (rp_status rep))))])\<rparr>
              else Rejects not_a_function)"
proof -
  let ?e = "\<lparr>ae_code = (if 400 \<le> rp_status rep \<and> rp_status rep < 500 then Some ''ERR_BAD_REQUEST''
                     else if 500 \<le> rp_status rep \<and> rp_status rep < 600 then Some ''ERR_BAD_RESPONSE''
                     else None),
         ae_response = Some \<lparr>ar_status = rp_status rep,
            ar_data = (case rp_json rep of Inl msg \<Rightarrow> JStr (rp_text rep) | Inr v \<Rightarrow> v)\<rparr>,
         ae_message = ''Request failed with status code '' @ show_nat (rp_status rep)\<rparr>"
  obtain url hdrs evs q where p: "prepare ctx w = (Inr (url, hdrs), evs)" "parse_request w = Some q"
    using assms(1,2) by (auto simp: configured_def split: prod.splits sum.splits)
  have a: "axios_client rep (axios_request url hdrs q) = AxiosRejects ?e"
    using assms(3) by (auto simp: axios_client_def Let_def)
  have ax: "result (handler_axios ctx w (axios_client rep)) =
      (case axios_failure ctx ?e of Inl msg \<Rightarrow> outer_catch ctx msg | Inr resp \<Rightarrow> Returns resp)"
    by (simp add: handler_axios_def p Let_def a)
  show ?thesis
    unfolding ax using assms(4)
    by (simp add: axios_failure_def outer_catch_def Let_def split: sum.splits)
qed

lemma reply_failure_fetch:
  assumes "parse_request w \<noteq> None" and "configured ctx w"
      and "rp_status rep < 200 \<or> 300 \<le> rp_status rep"
  shows "result (handler_fetch ctx w (fetch_client rep))
           = (if log_has_error ctx then
                Returns \<lparr>status = rp_status rep, headers = [],
                  body = JSON_stringify (JObj
                    [(''error'', JStr (''Language service error: '' @ show_nat (rp_status rep)))])\<rparr>
              else Rejects not_a_function)"
proof -
  obtain url hdrs evs q where p: "prepare ctx w = (Inr (url, hdrs), evs)" "parse_request w = Some q"
    using assms(1,2) by (auto simp: configured_def split: prod.splits sum.splits)
  show ?thesis
    using assms(3)
    by (auto simp: handler_fetch_def p Let_def fetch_client_def fetch_settled_def outer_catch_def)
qed


lemma reply_not_json_fetch:
  assumes "parse_request w \<noteq> None" and "configured ctx w"
      and "200 \<le> rp_status rep" and "rp_status rep < 300" and "rp_json rep = Inl msg"
  shows "result (handler_fetch ctx w (fetch_client rep)) = outer_catch ctx msg"
  using assms
  by (auto simp: handler_fetch_def configured_def fetch_client_def fetch_settled_def Let_def
      split: prod.splits sum.splits)

subsection \<open>A call that ends without a reply\<close>

lemma axios_timeout_outcome:
  assumes "parse_request w = Some q" and "prepare ctx w = (Inr (url, hdrs), evs)"
      and "axios (axios_request url hdrs q) = AxiosRejects e"
      and "ae_code e = Some ''ECONNABORTED''"
  shows "handler_axios ctx w axios
           = \<lparr>result =
                (if log_has_error ctx then
                   Returns \<lparr>status = 504, headers = [],
                     body = JSON_stringify
                       (JObj [(''error'', JStr ''Request to Language service timed out'')])\<rparr>
                 else Rejects not_a_function),
              events = evs @ [AxiosCall (axios_request url hdrs q)]\<rparr>"
  by (simp add: handler_axios_def assms Let_def axios_failure_def outer_catch_def)

lemma fetch_rejected_outcome:
  assumes "parse_request w = Some q" and "prepare ctx w = (Inr (url, hdrs), evs)"
      and "fetch url (fetch_request hdrs q) = FetchRejects msg"
  shows "handler_fetch ctx w fetch
           = \<lparr>result = outer_catch ctx msg,
              events = evs @ [FetchCall url (fetch_request hdrs q)]\<rparr>"
  by (simp add: handler_fetch_def assms Let_def fetch_settled_def)

subsection \<open>The token does not arrive in time\<close>

lemma token_timeout:
  assumes "parse_request w \<noteq> None" and "\<not> isLocalDevelopment w"
      and "\<not> settles_within
             (getToken w (env w ''MANAGED_IDENTITY_CLIENT_ID'')
                ''https://cognitiveservices.azure.com/.default'') 10000"
  shows "race_timer
           (getToken w (env w ''MANAGED_IDENTITY_CLIENT_ID'')
              ''https://cognitiveservices.azure.com/.default'')
           10000 ''Token acquisition timed out''
           = Rejected ''Token acquisition timed out''"
    and "handler_axios ctx w axios
           = \<lparr>result =
                (if log_has_error ctx then
                   Returns (internal_error ''Failed to authenticate: Token acquisition timed out'')
                 else Rejects not_a_function),
              events = [GetToken (env w ''MANAGED_IDENTITY_CLIENT_ID'')
                          ''https://cognitiveservices.azure.com/.default'']\<rparr>"
    and "handler_fetch ctx w fetch
           = \<lparr>result =
                (if log_has_error ctx then
                   Returns (internal_error ''Failed to authenticate: Token acquisition timed out'')
                 else Rejects not_a_function),
              events = [GetToken (env w ''MANAGED_IDENTITY_CLIENT_ID'')
                          ''https://cognitiveservices.azure.com/.default'']\<rparr>"
proof -
  let ?p = "getToken w (env w ''MANAGED_IDENTITY_CLIENT_ID'')
              ''https://cognitiveservices.azure.com/.default''"
  show r: "race_timer ?p 10000 ''Token acquisition timed out''
             = Rejected ''Token acquisition timed out''"
    using assms(3) by (cases ?p) simp_all
  have a: "authenticate ctx w =
      (Inl (if log_has_error ctx
            then ''Failed to authenticate: Token acquisition timed out''
            else not_a_function),
       [GetToken (env w ''MANAGED_IDENTITY_CLIENT_ID'')
          ''https://cognitiveservices.azure.com/.default''])"
    using assms(2) by (simp add: authenticate_def Let_def r)
  have p: "prepare ctx w =
      (Inl (if log_has_error ctx
            then ''Failed to authenticate: Token acquisition timed out''
            else not_a_function),
       [GetToken (env w ''MANAGED_IDENTITY_CLIENT_ID'')
          ''https://cognitiveservices.azure.com/.default''])"
    by (simp add: prepare_def a)
  obtain q where q: "parse_request w = Some q"
    using assms(1) by auto
  show "handler_axios ctx w axios
           = \<lparr>result =
                (if log_has_error ctx then
                   Returns (internal_error ''Failed to authenticate: Token acquisition timed out'')
                 else Rejects not_a_function),
              events = [GetToken (env w ''MANAGED_IDENTITY_CLIENT_ID'')
                          ''https://cognitiveservices.azure.com/.default'']\<rparr>"
    by (simp add: handler_axios_def q p outer_catch_def)
  show "handler_fetch ctx w fetch
           = \<lparr>result =
                (if log_has_error ctx then
                   Returns (internal_error ''Failed to authenticate: Token acquisition timed out'')
                 else Rejects not_a_function),
              events = [GetToken (env w ''MANAGED_IDENTITY_CLIENT_ID'')
                          ''https://cognitiveservices.azure.com/.default'']\<rparr>"
    by (simp add: handler_fetch_def q p outer_catch_def)
qed

subsection \<open>What a handler past the parse step never returns\<close>

lemma outer_catch_not_bad_request: "outer_catch ctx msg \<noteq> Returns bad_request"
  by (simp add: outer_catch_def internal_error_def bad_request_def)

lemma axios_failure_not_bad_request: "axios_failure ctx e \<noteq> Inr bad_request"
  by (simp add: axios_failure_def bad_request_def JSON_stringify_def Let_def)

lemma fetch_settled_not_bad_request: "fetch_settled ctx r \<noteq> Inr bad_request"
  by (simp add: fetch_settled_def bad_request_def success_def JSON_stringify_def
      split: fetch_result.splits sum.splits)

lemma handler_axios_not_bad_request:
  assumes "parse_request w = Some q"
  shows "result (handler_axios ctx w axios) \<noteq> Returns bad_request"
proof -
  have s: "success v \<noteq> bad_request" for v
    by (simp add: success_def bad_request_def)
  show ?thesis
    using axios_failure_not_bad_request [of ctx] outer_catch_not_bad_request [of ctx] s
    by (auto simp: handler_axios_def assms Let_def
        split: prod.splits sum.splits axios_result.splits)
qed

lemma handler_fetch_not_bad_request:
  assumes "parse_request w = Some q"
  shows "result (handler_fetch ctx w fetch) \<noteq> Returns bad_request"
  using fetch_settled_not_bad_request [of ctx] outer_catch_not_bad_request [of ctx]
  by (auto simp: handler_fetch_def assms Let_def split: prod.splits sum.splits)

subsection \<open>On the v4 context\<close>

text \<open>
  Where \<^verbatim>\<open>context.log.error\<close> is not a function, a handler either returns the 200 of a
  successful call or rejects: no other response is ever returned.
\<close>

lemma without_log_error_axios:
  assumes "\<not> log_has_error ctx"
  shows "result (handler_axios ctx w axios) = Rejects not_a_function
       \<or> (\<exists>v. result (handler_axios ctx w axios) = Returns (success v))"
  using assms
  by (auto simp: handler_axios_def parse_failure_def outer_catch_def axios_failure_def Let_def
      split: option.splits prod.splits sum.splits axios_result.splits)

lemma without_log_error_fetch:
  assumes "\<not> log_has_error ctx"
  shows "result (handler_fetch ctx w fetch) = Rejects not_a_function
       \<or> (\<exists>v. result (handler_fetch ctx w fetch) = Returns (success v))"
  using assms
  by (auto simp: handler_fetch_def parse_failure_def outer_catch_def fetch_settled_def Let_def
      split: option.splits prod.splits sum.splits fetch_result.splits if_splits)

section \<open>The claims\<close>

subsection \<open>C1: the two variants compared\<close>




subsection \<open>C2: the timeout of the call\<close>

text \<open>
  Claim C2 says that a call which does not complete within 15 seconds is answered with
  status 504 and a timeout message, in both variants. The axios file sets the timeout of
  15000 ms and has the 504 return, but \<^verbatim>\<open>context.log.error\<close> on line 119 comes first: on
  the v4 context it throws, the outer \<^verbatim>\<open>catch\<close> throws again on line 146, and the handler
  rejects. With a context that has \<^verbatim>\<open>log.error\<close> the 504 is returned. The node-fetch file
  sets no timeout; a call that fetch rejects ends in the outer \<^verbatim>\<open>catch\<close>, which rejects
  the same way on the v4 context.
\<close>

theorem timeout_rejects_on_v4:
  "handler_axios v4_context (local_world (ask (JStr ''Hi''))) (axios_gives (AxiosRejects axios_timeout))
     = \<lparr>result = Rejects not_a_function,
        events = [AxiosCall (axios_request local_url local_headers (JStr ''Hi''))]\<rparr>
   \<and> ax_timeout (axios_request local_url local_headers (JStr ''Hi'')) = 15000
   \<and> result (handler_axios logging_context (local_world (ask (JStr ''Hi'')))
        (axios_gives (AxiosRejects axios_timeout)))
     = Returns \<lparr>status = 504, headers = [],
         body = Text (JObj [(''error'', JStr ''Request to Language service timed out'')])\<rparr>
   \<and> result (handler_fetch v4_context (local_world (ask (JStr ''Hi'')))
        (fetch_gives (FetchRejects connect_timeout)))
     = Rejects not_a_function"
proof -
  have g: "axios_gives (AxiosRejects axios_timeout)
             (axios_request local_url local_headers (JStr ''Hi''))
           = AxiosRejects axios_timeout"
    by (simp add: axios_gives_def)
  have c: "ae_code axios_timeout = Some ''ECONNABORTED''"
    by (simp add: axios_timeout_def)
  have f: "fetch_gives (FetchRejects connect_timeout) local_url
             (fetch_request local_headers (JStr ''Hi''))
           = FetchRejects connect_timeout"
    by (simp add: fetch_gives_def)
  show ?thesis
    using axios_timeout_outcome
        [where w = "local_world (ask (JStr ''Hi''))" and q = "JStr ''Hi''" and ctx = v4_context
           and url = local_url and hdrs = local_headers and evs = "[]"
           and axios = "axios_gives (AxiosRejects axios_timeout)" and e = axios_timeout]
      axios_timeout_outcome
        [where w = "local_world (ask (JStr ''Hi''))" and q = "JStr ''Hi''" and ctx = logging_context
           and url = local_url and hdrs = local_headers and evs = "[]"
           and axios = "axios_gives (AxiosRejects axios_timeout)" and e = axios_timeout]
      fetch_rejected_outcome
        [where w = "local_world (ask (JStr ''Hi''))" and q = "JStr ''Hi''" and ctx = v4_context
           and url = local_url and hdrs = local_headers and evs = "[]"
           and fetch = "fetch_gives (FetchRejects connect_timeout)" and msg = connect_timeout]
      parse_request_Hi prepare_local_world g c f
    by (simp add: context_facts outer_catch_def JSON_stringify_def axios_request_def)
qed

subsection \<open>C3: the question is sent verbatim\<close>

text \<open>
  Claim C3. When the body is a JSON object whose \<^verbatim>\<open>question\<close> is a non-empty string, the
  only query either variant can send is \<^verbatim>\<open>{question: that string, top: 1}\<close>, and it sends
  exactly that one whenever authentication and the configuration succeed.
\<close>

theorem question_sent_verbatim:
  assumes "request_json w = Some (JObj kvs)"
      and "map_of kvs ''question'' = Some (JStr s)"
      and "s \<noteq> []"
  shows "parse_request w = Some (JStr s)
       \<and> set (outbound_queries (handler_axios ctx w axios))
             \<subseteq> {JObj [(''question'', JStr s), (''top'', JNum (Finite 1))]}
       \<and> set (outbound_queries (handler_fetch ctx w fetch))
             \<subseteq> {JObj [(''question'', JStr s), (''top'', JNum (Finite 1))]}
       \<and> (configured ctx w \<longrightarrow>
             outbound_queries (handler_axios ctx w axios)
               = [JObj [(''question'', JStr s), (''top'', JNum (Finite 1))]]
           \<and> outbound_queries (handler_fetch ctx w fetch)
               = [JObj [(''question'', JStr s), (''top'', JNum (Finite 1))]])"
proof -
  have q: "parse_request w = Some (JStr s)"
    using assms by (simp add: parse_request_question)
  show ?thesis
    by (auto simp: q outbound_queries_axios outbound_queries_fetch qnaQuery_def)
qed

theorem question_sent_verbatim_witness:
  "request_json (local_world (ask (JStr ''Hi''))) = Some (JObj [(''question'', JStr ''Hi'')])
   \<and> outbound_queries (handler_axios v4_context (local_world (ask (JStr ''Hi''))) (axios_client reply_ok))
       = [JObj [(''question'', JStr ''Hi''), (''top'', JNum (Finite 1))]]
   \<and> outbound_queries (handler_fetch v4_context (local_world (ask (JStr ''Hi''))) (fetch_client reply_ok))
       = [JObj [(''question'', JStr ''Hi''), (''top'', JNum (Finite 1))]]"
  using question_sent_verbatim [of "local_world (ask (JStr ''Hi''))"
      "[(''question'', JStr ''Hi'')]" "''Hi''" v4_context "axios_client reply_ok" "fetch_client reply_ok"]
    configured_local_world [of v4_context "ask (JStr ''Hi'')"]
  by (simp add: local_world_def ask_def)

subsection \<open>C4: a body that cannot be read\<close>

text \<open>
  Claim C4 says that a body which fails to parse is answered at once with status 400 and
  \<^verbatim>\<open>{"error": "Invalid request format"}\<close>, with no credential acquired and no call sent.
  Line 20 has that return, but \<^verbatim>\<open>context.log.error\<close> on line 19 comes first: on the v4
  context it throws, the outer \<^verbatim>\<open>catch\<close> throws again, and the handler rejects instead of
  returning the 400. Nothing is acquired or sent. With a context that has \<^verbatim>\<open>log.error\<close>
  the 400 is returned.
\<close>

theorem unparsable_body_rejects_on_v4:
  "request_json (hosted_world None) = None
   \<and> handler_axios v4_context (hosted_world None) (axios_client reply_ok)
       = \<lparr>result = Rejects not_a_function, events = []\<rparr>
   \<and> handler_fetch v4_context (hosted_world None) (fetch_client reply_ok)
       = \<lparr>result = Rejects not_a_function, events = []\<rparr>
   \<and> handler_axios logging_context (hosted_world None) (axios_client reply_ok)
       = \<lparr>result = Returns \<lparr>status = 400, headers = [],
            body = Text (JObj [(''error'', JStr ''Invalid request format'')])\<rparr>, events = []\<rparr>
   \<and> handler_fetch logging_context (hosted_world None) (fetch_client reply_ok)
       = \<lparr>result = Returns \<lparr>status = 400, headers = [],
            body = Text (JObj [(''error'', JStr ''Invalid request format'')])\<rparr>, events = []\<rparr>"
proof -
  have r: "request_json (hosted_world None) = None"
    by (simp add: hosted_world_def)
  show ?thesis
    using unparsable_body [OF r, of v4_context] unparsable_body [OF r, of logging_context] r
    by (simp add: parse_failure_cases context_facts bad_request_def JSON_stringify_def)
qed

subsection \<open>C5: a successful reply\<close>

text \<open>
  Claim C5, as amended. When the call is made and the knowledge base replies with a status
  from 200 to 299 and a body that is JSON, each variant returns status 200 with the
  header \<^verbatim>\<open>Content-Type: application/json\<close> and the body \<^verbatim>\<open>JSON.stringify\<close> of the parsed
  payload. That body reads back as the payload itself when every number in the payload
  is finite and not the negative zero.
\<close>

theorem success_passed_through:
  assumes "parse_request w \<noteq> None" and "configured ctx w"
      and "200 \<le> rp_status rep" and "rp_status rep < 300"
      and "rp_json rep = Inr v"
  shows "result (handler_axios ctx w (axios_client rep))
           = Returns \<lparr>status = 200, headers = [(''Content-Type'', ''application/json'')],
                      body = JSON_stringify v\<rparr>
       \<and> result (handler_fetch ctx w (fetch_client rep))
           = Returns \<lparr>status = 200, headers = [(''Content-Type'', ''application/json'')],
                      body = JSON_stringify v\<rparr>
       \<and> (plain v \<longrightarrow> JSON_stringify v = Text v)"
  using reply_success_axios [OF assms] reply_success_fetch [OF assms] JSON_stringify_plain [of v]
  by (simp add: success_def)

theorem success_passed_through_witness:
  "parse_request (local_world (ask (JStr ''Hi''))) \<noteq> None
   \<and> configured v4_context (local_world (ask (JStr ''Hi'')))
   \<and> rp_status reply_ok = 200 \<and> rp_json reply_ok = Inr answer \<and> plain answer
   \<and> result (handler_axios v4_context (local_world (ask (JStr ''Hi''))) (axios_client reply_ok))
       = Returns \<lparr>status = 200, headers = [(''Content-Type'', ''application/json'')],
                  body = Text answer\<rparr>
   \<and> result (handler_fetch v4_context (local_world (ask (JStr ''Hi''))) (fetch_client reply_ok))
       = Returns \<lparr>status = 200, headers = [(''Content-Type'', ''application/json'')],
                  body = Text answer\<rparr>"
proof -
  have p: "parse_request (local_world (ask (JStr ''Hi''))) \<noteq> None"
    by (simp add: parse_request_Hi)
  have s: "rp_status reply_ok = 200" "rp_json reply_ok = Inr answer"
    by (simp_all add: reply_ok_def)
  have a: "plain answer"
    by (simp add: answer_def)
  show ?thesis
    using success_passed_through [OF p configured_local_world, of reply_ok answer v4_context] p s a
      configured_local_world [of v4_context "ask (JStr ''Hi'')"]
    by simp
qed

text \<open>
  Claim C5 as stated fails in two ways. The payload \<^verbatim>\<open>{"confidenceScore":1e999}\<close> parses
  to a number that \<^verbatim>\<open>JSON.stringify\<close> writes as \<^verbatim>\<open>null\<close>: both variants return a body that
  is not the payload. And a reply of status 204 with an empty body gets no 200 from the
  node-fetch variant, where \<^verbatim>\<open>response.json()\<close> throws.
\<close>

theorem success_not_verbatim_counterexample:
  "rp_status reply_overflowing = 200 \<and> rp_json reply_overflowing = Inr overflowing
   \<and> result (handler_axios v4_context (local_world (ask (JStr ''Hi''))) (axios_client reply_overflowing))
       = Returns \<lparr>status = 200, headers = [(''Content-Type'', ''application/json'')],
                  body = Text (JObj [(''confidenceScore'', JNull)])\<rparr>
   \<and> result (handler_fetch v4_context (local_world (ask (JStr ''Hi''))) (fetch_client reply_overflowing))
       = Returns \<lparr>status = 200, headers = [(''Content-Type'', ''application/json'')],
                  body = Text (JObj [(''confidenceScore'', JNull)])\<rparr>
   \<and> Text (JObj [(''confidenceScore'', JNull)]) \<noteq> Text overflowing
   \<and> rp_status reply_no_content = 204
   \<and> result (handler_fetch v4_context (local_world (ask (JStr ''Hi''))) (fetch_client reply_no_content))
       = Rejects not_a_function"
proof -
  have p: "parse_request (local_world (ask (JStr ''Hi''))) \<noteq> None"
    by (simp add: parse_request_Hi)
  have s: "200 \<le> rp_status reply_overflowing" "rp_status reply_overflowing < 300"
      "rp_json reply_overflowing = Inr overflowing" "rp_status reply_overflowing = 200"
    by (simp_all add: reply_overflowing_def)
  have n: "200 \<le> rp_status reply_no_content" "rp_status reply_no_content < 300"
      "rp_json reply_no_content = Inl ''Unexpected end of JSON input''"
      "rp_status reply_no_content = 204"
    by (simp_all add: reply_no_content_def)
  have o: "JSON_stringify overflowing = Text (JObj [(''confidenceScore'', JNull)])"
      "Text (JObj [(''confidenceScore'', JNull)]) \<noteq> Text overflowing"
    by (simp_all add: JSON_stringify_def overflowing_def)
  show ?thesis
    using reply_success_axios [OF p configured_local_world s(1,2,3), of v4_context]
      reply_success_fetch [OF p configured_local_world s(1,2,3), of v4_context]
      reply_not_json_fetch [OF p configured_local_world n(1,2,3), of v4_context]
      s n o
    by (simp add: success_def outer_catch_def context_facts)
qed

subsection \<open>C6: a failure status\<close>

text \<open>
  Claim C6 says that a non-success status of the knowledge base is relayed with an error
  body naming it, 404 giving a 404 whose error mentions \<^verbatim>\<open>404\<close>. Both files have that
  return, but \<^verbatim>\<open>context.log.error\<close> comes first (line 119; line 100 in the node-fetch
  file): on the v4 context it throws, the outer \<^verbatim>\<open>catch\<close> throws again, and the handler
  rejects instead of relaying. With a context that has \<^verbatim>\<open>log.error\<close> the 404 is relayed
  (the axios variant adds a \<^verbatim>\<open>details\<close> field).
\<close>

theorem failure_status_rejects_on_v4:
  "rp_status reply_not_found = 404
   \<and> result (handler_axios v4_context (local_world (ask (JStr ''Hi''))) (axios_client reply_not_found))
       = Rejects not_a_function
   \<and> result (handler_fetch v4_context (local_world (ask (JStr ''Hi''))) (fetch_client reply_not_found))
       = Rejects not_a_function
   \<and> result (handler_axios logging_context (local_world (ask (JStr ''Hi''))) (axios_client reply_not_found))
       = Returns \<lparr>status = 404, headers = [],
          body = Text (JObj
            [(''error'', JStr ''Language service error: 404''),
             (''details'', JStr ''Resource not found'')])\<rparr>
   \<and> result (handler_fetch logging_context (local_world (ask (JStr ''Hi''))) (fetch_client reply_not_found))
       = Returns \<lparr>status = 404, headers = [],
          body = Text (JObj [(''error'', JStr ''Language service error: 404'')])\<rparr>
   \<and> sublist ''404'' ''Language service error: 404''"
proof -
  have p: "parse_request (local_world (ask (JStr ''Hi''))) \<noteq> None"
    by (simp add: parse_request_Hi)
  have s: "rp_status reply_not_found < 200 \<or> 300 \<le> rp_status reply_not_found"
      "0 < rp_status reply_not_found"
    by (simp_all add: reply_not_found_def)
  show ?thesis
    using reply_failure_axios [OF p configured_local_world s, of v4_context]
      reply_failure_fetch [OF p configured_local_world s(1), of v4_context]
      reply_failure_axios [OF p configured_local_world s, of logging_context]
      reply_failure_fetch [OF p configured_local_world s(1), of logging_context]
      mentions_404
    by (simp add: reply_not_found_def show_nat_404 context_facts JSON_stringify_def)
qed

subsection \<open>C7: missing configuration\<close>

text \<open>
  Claim C7 says that a missing configuration value is answered with status 500 without
  the call being attempted. The call is indeed not attempted, and lines 148 to 154 have
  the 500, but \<^verbatim>\<open>context.log.error\<close> on line 146 comes first: on the v4 context it throws
  out of the outer \<^verbatim>\<open>catch\<close> and the handler rejects instead of returning the 500. With
  a context that has \<^verbatim>\<open>log.error\<close> the 500 is returned.
\<close>

theorem missing_configuration_rejects_on_v4:
  "parse_request (bare_world (ask (JStr ''Hi''))) = Some (JStr ''Hi'')
   \<and> isLocalDevelopment (bare_world (ask (JStr ''Hi'')))
   \<and> unset (env (bare_world (ask (JStr ''Hi''))) ''LANGUAGE_SERVICE_KEY'')
   \<and> handler_axios v4_context (bare_world (ask (JStr ''Hi''))) (axios_client reply_ok)
       = \<lparr>result = Rejects not_a_function, events = []\<rparr>
   \<and> handler_fetch v4_context (bare_world (ask (JStr ''Hi''))) (fetch_client reply_ok)
       = \<lparr>result = Rejects not_a_function, events = []\<rparr>
   \<and> handler_axios logging_context (bare_world (ask (JStr ''Hi''))) (axios_client reply_ok)
       = \<lparr>result = Returns \<lparr>status = 500, headers = [],
            body = Text (JObj
              [(''error'', JStr ''An error occurred processing your request''),
               (''details'', JStr ''LANGUAGE_SERVICE_KEY environment variable is required for local development'')])\<rparr>,
          events = []\<rparr>"
proof -
  have p: "parse_request (bare_world (ask (JStr ''Hi''))) = Some (JStr ''Hi'')"
    by (simp add: parse_request_def bare_world_def ask_def)
  have a: "prepare ctx (bare_world (ask (JStr ''Hi''))) =
      (Inl ''LANGUAGE_SERVICE_KEY environment variable is required for local development'', [])"
    for ctx
    by (simp add: prepare_def authenticate_def bare_world_facts(1)) (simp add: bare_world_def no_env_def)
  show ?thesis
    by (simp add: p a bare_world_facts handler_axios_def handler_fetch_def outer_catch_def
        context_facts internal_error_def JSON_stringify_def)
qed

subsection \<open>C8: the token does not arrive in time\<close>

text \<open>
  Claim C8 says that in hosted mode a token that does not arrive within 10 seconds loses
  the race, the timeout message is wrapped and rethrown, and status 500 is returned
  without the call being sent. The timer does win and no call is sent, but
  \<^verbatim>\<open>context.log.error\<close> on line 56 comes before the wrapping of line 57: on the v4
  context it throws, the wrapped error is never built, the outer \<^verbatim>\<open>catch\<close> throws again
  on line 146, and the handler rejects instead of returning the 500. With a context that
  has \<^verbatim>\<open>log.error\<close> the 500 with the wrapped message is returned.
\<close>

theorem token_timeout_rejects_on_v4:
  "parse_request (hosted_world (ask (JStr ''Hi''))) \<noteq> None
   \<and> \<not> isLocalDevelopment (hosted_world (ask (JStr ''Hi'')))
   \<and> \<not> settles_within
         (getToken (hosted_world (ask (JStr ''Hi''))) (Some ''c3d4'')
            ''https://cognitiveservices.azure.com/.default'') 10000
   \<and> handler_axios v4_context (hosted_world (ask (JStr ''Hi''))) (axios_client reply_ok)
       = \<lparr>result = Rejects not_a_function,
          events = [GetToken (Some ''c3d4'') ''https://cognitiveservices.azure.com/.default'']\<rparr>
   \<and> handler_fetch v4_context (hosted_world (ask (JStr ''Hi''))) (fetch_client reply_ok)
       = \<lparr>result = Rejects not_a_function,
          events = [GetToken (Some ''c3d4'') ''https://cognitiveservices.azure.com/.default'']\<rparr>
   \<and> handler_axios logging_context (hosted_world (ask (JStr ''Hi''))) (axios_client reply_ok)
       = \<lparr>result = Returns \<lparr>status = 500, headers = [],
            body = Text (JObj
              [(''error'', JStr ''An error occurred processing your request''),
               (''details'', JStr ''Failed to authenticate: Token acquisition timed out'')])\<rparr>,
          events = [GetToken (Some ''c3d4'') ''https://cognitiveservices.azure.com/.default'']\<rparr>"
proof -
  have p: "parse_request (hosted_world (ask (JStr ''Hi''))) \<noteq> None"
    by (simp add: parse_request_def hosted_world_def ask_def)
  have t: "\<not> settles_within
         (getToken (hosted_world (ask (JStr ''Hi'')))
            (env (hosted_world (ask (JStr ''Hi''))) ''MANAGED_IDENTITY_CLIENT_ID'')
            ''https://cognitiveservices.azure.com/.default'') 10000"
    by (simp add: hosted_world_facts)
  show ?thesis
    using token_timeout(2) [OF p hosted_world_facts(1) t, of v4_context "axios_client reply_ok"]
      token_timeout(3) [OF p hosted_world_facts(1) t, of v4_context "fetch_client reply_ok"]
      token_timeout(2) [OF p hosted_world_facts(1) t, of logging_context "axios_client reply_ok"]
      p
    by (simp add: hosted_world_facts context_facts internal_error_def JSON_stringify_def)
qed

subsection \<open>C9: a body without a question\<close>

text \<open>
  Claim C9, as amended. When the body is valid JSON other than \<^verbatim>\<open>null\<close> and has no
  \<^verbatim>\<open>question\<close> property, the question becomes \<^verbatim>\<open>Tell me about your portfolio\<close> and the
  invocation goes on exactly as for a body holding that question: the answer is not the
  400 of the parse step, and when authentication and the configuration succeed the
  query sent holds the default question.
\<close>

theorem missing_question_defaulted:
  assumes "request_json w = Some v" and "v \<noteq> JNull" and "\<not> has_question v"
  shows "parse_request w = Some (JStr ''Tell me about your portfolio'')
       \<and> handler_axios ctx w axios
           = handler_axios ctx
               (w\<lparr>request_json := Some (JObj [(''question'', JStr ''Tell me about your portfolio'')])\<rparr>)
               axios
       \<and> handler_fetch ctx w fetch
           = handler_fetch ctx
               (w\<lparr>request_json := Some (JObj [(''question'', JStr ''Tell me about your portfolio'')])\<rparr>)
               fetch
       \<and> result (handler_axios ctx w axios) \<noteq> Returns bad_request
       \<and> result (handler_fetch ctx w fetch) \<noteq> Returns bad_request
       \<and> (configured ctx w \<longrightarrow>
             outbound_queries (handler_axios ctx w axios)
               = [JObj [(''question'', JStr ''Tell me about your portfolio''), (''top'', JNum (Finite 1))]]
           \<and> outbound_queries (handler_fetch ctx w fetch)
               = [JObj [(''question'', JStr ''Tell me about your portfolio''), (''top'', JNum (Finite 1))]])"
proof -
  let ?w' = "w\<lparr>request_json := Some (JObj [(''question'', JStr ''Tell me about your portfolio'')])\<rparr>"
  have q: "parse_request w = Some (JStr ''Tell me about your portfolio'')"
    using parse_request_no_question [OF assms] by (simp add: default_question_def)
  have q': "parse_request ?w' = Some (JStr ''Tell me about your portfolio'')"
    by (simp add: parse_request_def)
  have e: "handler_axios ctx w axios = handler_axios ctx ?w' axios"
      "handler_fetch ctx w fetch = handler_fetch ctx ?w' fetch"
    by (rule handler_axios_cong handler_fetch_cong; simp add: q q')+
  have n: "result (handler_axios ctx w axios) \<noteq> Returns bad_request"
      "result (handler_fetch ctx w fetch) \<noteq> Returns bad_request"
    using q by (rule handler_axios_not_bad_request handler_fetch_not_bad_request)+
  have o: "configured ctx w \<longrightarrow>
             outbound_queries (handler_axios ctx w axios)
               = [JObj [(''question'', JStr ''Tell me about your portfolio''), (''top'', JNum (Finite 1))]]
           \<and> outbound_queries (handler_fetch ctx w fetch)
               = [JObj [(''question'', JStr ''Tell me about your portfolio''), (''top'', JNum (Finite 1))]]"
    by (simp add: outbound_queries_axios outbound_queries_fetch q qnaQuery_def)
  show ?thesis using q e n o by blast
qed

theorem missing_question_defaulted_witness:
  "request_json (local_world (Some (JObj []))) = Some (JObj [])
   \<and> JObj [] \<noteq> JNull \<and> \<not> has_question (JObj [])
   \<and> parse_request (local_world (Some (JObj []))) = Some (JStr ''Tell me about your portfolio'')
   \<and> outbound_queries (handler_axios v4_context (local_world (Some (JObj []))) (axios_client reply_ok))
       = [JObj [(''question'', JStr ''Tell me about your portfolio''), (''top'', JNum (Finite 1))]]
   \<and> outbound_queries (handler_fetch v4_context (local_world (Some (JObj []))) (fetch_client reply_ok))
       = [JObj [(''question'', JStr ''Tell me about your portfolio''), (''top'', JNum (Finite 1))]]"
proof -
  have r: "request_json (local_world (Some (JObj []))) = Some (JObj [])"
    by (simp add: local_world_def)
  have h: "JObj [] \<noteq> JNull" "\<not> has_question (JObj [])"
    by simp_all
  note t = missing_question_defaulted [OF r h, of v4_context "axios_client reply_ok" "fetch_client reply_ok"]
  have a: "parse_request (local_world (Some (JObj []))) = Some (JStr ''Tell me about your portfolio'')"
    using t by blast
  have b: "outbound_queries (handler_axios v4_context (local_world (Some (JObj []))) (axios_client reply_ok))
       = [JObj [(''question'', JStr ''Tell me about your portfolio''), (''top'', JNum (Finite 1))]]"
      "outbound_queries (handler_fetch v4_context (local_world (Some (JObj []))) (fetch_client reply_ok))
       = [JObj [(''question'', JStr ''Tell me about your portfolio''), (''top'', JNum (Finite 1))]]"
    using t configured_local_world [of v4_context "Some (JObj [])"] by blast+
  show ?thesis
    using r h a b by blast
qed

text \<open>
  Claim C9 as stated fails: the body \<^verbatim>\<open>null\<close> is valid JSON and has no \<^verbatim>\<open>question\<close>, yet
  reading its property throws inside the \<^verbatim>\<open>try\<close> of the parse step, no question is
  substituted, and in a fully configured environment nothing is requested or sent.
\<close>

theorem missing_question_null_body_counterexample:
  "request_json (local_world (Some JNull)) = Some JNull
   \<and> \<not> has_question JNull
   \<and> configured v4_context (local_world (Some JNull))
   \<and> parse_request (local_world (Some JNull)) = None
   \<and> events (handler_axios v4_context (local_world (Some JNull)) (axios_client reply_ok)) = []
   \<and> events (handler_fetch v4_context (local_world (Some JNull)) (fetch_client reply_ok)) = []
   \<and> outbound_queries (handler_axios v4_context (local_world (Some JNull)) (axios_client reply_ok)) = []
   \<and> outbound_queries (handler_fetch v4_context (local_world (Some JNull)) (fetch_client reply_ok)) = []"
  by (simp add: configured_local_world handler_axios_def handler_fetch_def parse_request_def
      outbound_queries_def request_json_local_world)

subsection \<open>C10: a falsy question\<close>

text \<open>
  Claim C10, as amended. When the body is a JSON object with a \<^verbatim>\<open>question\<close> property:
  a falsy value (the empty string, \<^verbatim>\<open>null\<close>, \<^verbatim>\<open>false\<close>, 0 among them) is replaced by the
  default question; no query sent ever holds the empty string as its question; and a
  truthy value that a template literal can convert to a string is handed to axios
  unchanged, whatever its type, and written by \<^verbatim>\<open>JSON.stringify\<close> into the body handed
  to fetch, where it reads back unchanged when every number in it is finite and not the
  negative zero.
\<close>

theorem falsy_question_defaulted:
  assumes "request_json w = Some (JObj kvs)" and "map_of kvs ''question'' = Some v"
  shows "(\<not> truthy v \<longrightarrow> parse_request w = Some (JStr ''Tell me about your portfolio''))
       \<and> (truthy v \<and> \<not> ToString_throws v \<longrightarrow> parse_request w = Some v)
       \<and> (v \<in> {JStr [], JNull, JBool False, JNum (Finite 0)} \<longrightarrow> \<not> truthy v)
       \<and> JObj [(''question'', JStr []), (''top'', JNum (Finite 1))]
             \<notin> set (outbound_queries (handler_axios ctx w axios))
       \<and> JObj [(''question'', JStr []), (''top'', JNum (Finite 1))]
             \<notin> set (outbound_queries (handler_fetch ctx w fetch))
       \<and> (configured ctx w \<and> (truthy v \<longrightarrow> \<not> ToString_throws v) \<longrightarrow>
             outbound_queries (handler_axios ctx w axios)
               = [JObj [(''question'',
                         if truthy v then v else JStr ''Tell me about your portfolio''),
                        (''top'', JNum (Finite 1))]]
           \<and> outbound_queries (handler_fetch ctx w fetch)
               = [JObj [(''question'',
                         if truthy v then stringified v else JStr ''Tell me about your portfolio''),
                        (''top'', JNum (Finite 1))]])
       \<and> (plain v \<longrightarrow> stringified v = v)"
proof -
  note p = parse_request_question [OF assms, unfolded default_question_def]
  have a: "\<not> truthy v \<longrightarrow> parse_request w = Some (JStr ''Tell me about your portfolio'')"
    by (simp add: p)
  have b: "truthy v \<and> \<not> ToString_throws v \<longrightarrow> parse_request w = Some v"
    by (simp add: p)
  have c: "v \<in> {JStr [], JNull, JBool False, JNum (Finite 0)} \<longrightarrow> \<not> truthy v"
    by auto
  have d: "JObj [(''question'', JStr []), (''top'', JNum (Finite 1))]
             \<notin> set (outbound_queries (handler_axios ctx w axios))"
    using parse_request_nonempty [of w]
    by (cases "parse_request w") (auto simp: outbound_queries_axios qnaQuery_def)
  have d': "JObj [(''question'', JStr []), (''top'', JNum (Finite 1))]
             \<notin> set (outbound_queries (handler_fetch ctx w fetch))"
    using parse_request_nonempty [of w]
    by (cases "parse_request w")
       (auto simp: outbound_queries_fetch stringified_qnaQuery JStr_stringified)
  have e: "configured ctx w \<and> (truthy v \<longrightarrow> \<not> ToString_throws v) \<longrightarrow>
             outbound_queries (handler_axios ctx w axios)
               = [JObj [(''question'',
                         if truthy v then v else JStr ''Tell me about your portfolio''),
                        (''top'', JNum (Finite 1))]]
           \<and> outbound_queries (handler_fetch ctx w fetch)
               = [JObj [(''question'',
                         if truthy v then stringified v else JStr ''Tell me about your portfolio''),
                        (''top'', JNum (Finite 1))]]"
    by (simp add: outbound_queries_axios outbound_queries_fetch qnaQuery_def p)
  have f: "plain v \<longrightarrow> stringified v = v"
    by (simp add: plain_stringified)
  show ?thesis using a b c d d' e f by blast
qed

theorem falsy_question_defaulted_witness:
  "request_json (local_world (ask (JStr []))) = Some (JObj [(''question'', JStr [])])
   \<and> \<not> truthy (JStr [])
   \<and> outbound_queries (handler_axios v4_context (local_world (ask (JStr []))) (axios_client reply_ok))
       = [JObj [(''question'', JStr ''Tell me about your portfolio''), (''top'', JNum (Finite 1))]]
   \<and> outbound_queries (handler_fetch v4_context (local_world (ask (JStr []))) (fetch_client reply_ok))
       = [JObj [(''question'', JStr ''Tell me about your portfolio''), (''top'', JNum (Finite 1))]]
   \<and> request_json (local_world (ask (JNum (Finite 42))))
       = Some (JObj [(''question'', JNum (Finite 42))])
   \<and> truthy (JNum (Finite 42)) \<and> \<not> ToString_throws (JNum (Finite 42)) \<and> plain (JNum (Finite 42))
   \<and> outbound_queries (handler_axios v4_context (local_world (ask (JNum (Finite 42)))) (axios_client reply_ok))
       = [JObj [(''question'', JNum (Finite 42)), (''top'', JNum (Finite 1))]]
   \<and> outbound_queries (handler_fetch v4_context (local_world (ask (JNum (Finite 42)))) (fetch_client reply_ok))
       = [JObj [(''question'', JNum (Finite 42)), (''top'', JNum (Finite 1))]]"
proof -
  have r: "request_json (local_world (ask q)) = Some (JObj [(''question'', q)])" for q
    by (simp add: local_world_def ask_def)
  have m: "map_of [(''question'', q)] ''question'' = Some q" for q :: json
    by simp
  note t0 = falsy_question_defaulted [OF r m, of "JStr []" v4_context "axios_client reply_ok" "fetch_client reply_ok"]
  note t1 = falsy_question_defaulted [OF r m, of "JNum (Finite 42)" v4_context "axios_client reply_ok" "fetch_client reply_ok"]
  have f: "\<not> truthy (JStr [])" "truthy (JNum (Finite 42))" "\<not> ToString_throws (JNum (Finite 42))"
      "plain (JNum (Finite 42))"
    by simp_all
  have a: "outbound_queries (handler_axios v4_context (local_world (ask (JStr []))) (axios_client reply_ok))
       = [JObj [(''question'', JStr ''Tell me about your portfolio''), (''top'', JNum (Finite 1))]]"
     "outbound_queries (handler_fetch v4_context (local_world (ask (JStr []))) (fetch_client reply_ok))
       = [JObj [(''question'', JStr ''Tell me about your portfolio''), (''top'', JNum (Finite 1))]]"
    using t0 f configured_local_world [of v4_context "ask (JStr [])"] by simp_all
  have b: "outbound_queries (handler_axios v4_context (local_world (ask (JNum (Finite 42)))) (axios_client reply_ok))
       = [JObj [(''question'', JNum (Finite 42)), (''top'', JNum (Finite 1))]]"
     "outbound_queries (handler_fetch v4_context (local_world (ask (JNum (Finite 42)))) (fetch_client reply_ok))
       = [JObj [(''question'', JNum (Finite 42)), (''top'', JNum (Finite 1))]]"
    using t1 f configured_local_world [of v4_context "ask (JNum (Finite 42))"] by simp_all
  show ?thesis using r f a b by blast
qed

text \<open>
  Claim C10 as stated fails in its last part, in two ways. The question \<^verbatim>\<open>1e999\<close> parses
  to an infinite number, truthy and not a string, and the body that the node-fetch
  variant sends holds \<^verbatim>\<open>null\<close> in its place. The question \<^verbatim>\<open>{"toString": 1}\<close> is truthy
  and not a string, but the template literal of the log line cannot convert it, the
  TypeError is caught by the parse step, and nothing is sent.
\<close>

theorem truthy_question_not_passed_counterexample:
  "request_json (local_world (ask (JNum PosInfinity)))
     = Some (JObj [(''question'', JNum PosInfinity)])
   \<and> truthy (JNum PosInfinity)
   \<and> outbound_queries (handler_fetch v4_context (local_world (ask (JNum PosInfinity)))
         (fetch_client reply_ok))
       = [JObj [(''question'', JNull), (''top'', JNum (Finite 1))]]
   \<and> request_json (local_world (ask (JObj [(''toString'', JNum (Finite 1))])))
       = Some (JObj [(''question'', JObj [(''toString'', JNum (Finite 1))])])
   \<and> truthy (JObj [(''toString'', JNum (Finite 1))])
   \<and> configured v4_context (local_world (ask (JObj [(''toString'', JNum (Finite 1))])))
   \<and> outbound_queries (handler_axios v4_context (local_world (ask (JObj [(''toString'', JNum (Finite 1))])))
         (axios_client reply_ok)) = []
   \<and> outbound_queries (handler_fetch v4_context (local_world (ask (JObj [(''toString'', JNum (Finite 1))])))
         (fetch_client reply_ok)) = []"
proof -
  have a: "parse_request (local_world (ask (JNum PosInfinity))) = Some (JNum PosInfinity)"
    by (simp add: parse_request_def local_world_def ask_def)
  have b: "parse_request (local_world (ask (JObj [(''toString'', JNum (Finite 1))]))) = None"
    by (simp add: parse_request_def local_world_def ask_def)
  have r: "request_json (local_world (ask q)) = Some (JObj [(''question'', q)])" for q
    by (simp add: local_world_def ask_def)
  show ?thesis
    by (simp add: outbound_queries_axios outbound_queries_fetch a b configured_local_world
        qnaQuery_def r)
qed

end
